theory Spec2Isabelle
  imports Main
begin

section \<open>Python values\<close>

text \<open>
  The client of \<^verbatim>\<open>linkedin_mcp_client/client.py\<close> exchanges JSON documents with a
  server.  A Python \<^verbatim>\<open>str\<close> is a sequence of Unicode code points, a \<^verbatim>\<open>bytes\<close>
  object is a sequence of bytes (a \<^typ>\<open>string\<close>, whose characters are bytes).
\<close>

type_synonym pystr = "nat list"
type_synonym bytes = string

definition py :: "string \<Rightarrow> pystr" where
  \<comment> \<open>an ASCII source literal as a Python \<^verbatim>\<open>str\<close>\<close>
  "py s = map of_char s"

text \<open>
  A Python \<^verbatim>\<open>float\<close>: the finite value \<open>m * 2 ^ e\<close>, an infinity or a NaN.
\<close>

datatype pyfloat = Finite int int | PosInf | NegInf | NaN

text \<open>
  What \<^verbatim>\<open>json.loads\<close> returns.  A \<^verbatim>\<open>dict\<close> is an association list in insertion
  order; the first binding of a key is the one a lookup finds.
\<close>

datatype json =
    JNone
  | JBool bool
  | JInt int
  | JFloat pyfloat
  | JStr pystr
  | JList "json list"
  | JDict "(pystr \<times> json) list"

datatype exn =
    LinkedInMCPError pystr
  | LinkedInMCPConnectionError reason
  | LinkedInMCPToolError json
      \<comment> \<open>the message is \<^verbatim>\<open>"Server error: "\<close> followed by the rendering of the carried value\<close>
  | LinkedInMCPAuthenticationError json
  | TypeError
  | AttributeError
  | UnicodeDecodeError
  | BrokenPipeError
  | KeyError
  | JSONDecodeError
  | OSError
  | HTTPStatusError nat
and reason =
    ServerClosedConnection
  | ServerProcessNotStarted
  | HTTPRequestFailed
  | FailedToStartServer exn
  | InitializeFailed json

text \<open>
  The result of an awaited call: a value, a raised exception, or no return at all
  (a \<^verbatim>\<open>readline\<close> that blocks for ever on a silent, open pipe).
\<close>

datatype 'a outcome = Return 'a | Raise exn | Hang

subsection \<open>Truthiness, membership, lookup, equality\<close>

fun truthy :: "json \<Rightarrow> bool" where
  "truthy JNone = False"
| "truthy (JBool b) = b"
| "truthy (JInt n) = (n \<noteq> 0)"
| "truthy (JFloat (Finite m e)) = (m \<noteq> 0)"
| "truthy (JFloat _) = True"
| "truthy (JStr s) = (s \<noteq> [])"
| "truthy (JList xs) = (xs \<noteq> [])"
| "truthy (JDict kvs) = (kvs \<noteq> [])"

fun is_infix :: "pystr \<Rightarrow> pystr \<Rightarrow> bool" where
  \<comment> \<open>\<^verbatim>\<open>a in b\<close> on two \<^verbatim>\<open>str\<close>\<close>
  "is_infix a [] = (a = [])"
| "is_infix a (c # cs) = (take (length a) (c # cs) = a \<or> is_infix a cs)"

fun contains :: "pystr \<Rightarrow> json \<Rightarrow> exn + bool" where
  \<comment> \<open>\<^verbatim>\<open>key in value\<close> for a \<^verbatim>\<open>str\<close> key\<close>
  "contains k (JDict kvs) = Inr (map_of kvs k \<noteq> None)"
| "contains k (JList xs) = Inr (JStr k \<in> set xs)"
| "contains k (JStr s) = Inr (is_infix k s)"
| "contains k _ = Inl TypeError"

fun subscript :: "json \<Rightarrow> pystr \<Rightarrow> exn + json" where
  \<comment> \<open>\<^verbatim>\<open>value[key]\<close> for a \<^verbatim>\<open>str\<close> key: a list or a \<^verbatim>\<open>str\<close> takes integer indices only\<close>
  "subscript (JDict kvs) k = (case map_of kvs k of Some v \<Rightarrow> Inr v | None \<Rightarrow> Inl KeyError)"
| "subscript _ k = Inl TypeError"

fun get :: "json \<Rightarrow> pystr \<Rightarrow> json \<Rightarrow> exn + json" where
  \<comment> \<open>\<^verbatim>\<open>value.get(key, default)\<close>: only a \<^verbatim>\<open>dict\<close> has the method\<close>
  "get (JDict kvs) k d = Inr (case map_of kvs k of Some v \<Rightarrow> v | None \<Rightarrow> d)"
| "get _ k d = Inl AttributeError"

fun float_eq_int :: "pyfloat \<Rightarrow> int \<Rightarrow> bool" where
  "float_eq_int (Finite m e) k =
     (if 0 \<le> e then m * 2 ^ nat e = k else m = k * 2 ^ nat (- e))"
| "float_eq_int _ k = False"

fun eq_int :: "json \<Rightarrow> int \<Rightarrow> bool" where
  \<comment> \<open>\<^verbatim>\<open>value == k\<close> for an integer literal \<open>k\<close>\<close>
  "eq_int (JInt n) k = (n = k)"
| "eq_int (JBool b) k = ((if b then 1 else 0) = k)"
| "eq_int (JFloat f) k = float_eq_int f k"
| "eq_int _ k = False"

subsection \<open>Decoding a line\<close>

text \<open>
  \<^verbatim>\<open>bytes.decode()\<close> is the strict UTF-8 codec: \<open>None\<close> stands for the
  \<^verbatim>\<open>UnicodeDecodeError\<close> it raises on an ill-formed sequence.
\<close>

definition cont :: "nat \<Rightarrow> bool" where
  "cont c = (128 \<le> c \<and> c \<le> 191)"

fun utf8 :: "nat list \<Rightarrow> pystr option" where
  "utf8 [] = Some []"
| "utf8 (b # bs) =
    (if b < 128 then map_option ((#) b) (utf8 bs)
     else if 194 \<le> b \<and> b \<le> 223 then
       (case bs of
          c1 # r \<Rightarrow>
            if cont c1 then map_option ((#) ((b - 192) * 64 + (c1 - 128))) (utf8 r)
            else None
        | _ \<Rightarrow> None)
     else if 224 \<le> b \<and> b \<le> 239 then
       (case bs of
          c1 # c2 # r \<Rightarrow>
            if (if b = 224 then 160 else 128) \<le> c1 \<and> c1 \<le> (if b = 237 then 159 else 191)
               \<and> cont c2
            then map_option ((#) ((b - 224) * 4096 + (c1 - 128) * 64 + (c2 - 128))) (utf8 r)
            else None
        | _ \<Rightarrow> None)
     else if 240 \<le> b \<and> b \<le> 244 then
       (case bs of
          c1 # c2 # c3 # r \<Rightarrow>
            if (if b = 240 then 144 else 128) \<le> c1 \<and> c1 \<le> (if b = 244 then 143 else 191)
               \<and> cont c2 \<and> cont c3
            then map_option
                   ((#) ((b - 240) * 262144 + (c1 - 128) * 4096 + (c2 - 128) * 64 + (c3 - 128)))
                   (utf8 r)
            else None
        | _ \<Rightarrow> None)
     else None)"

definition decode :: "bytes \<Rightarrow> pystr option" where
  "decode line = utf8 (map of_char line)"

text \<open>\<^verbatim>\<open>str.strip()\<close> removes the characters for which \<^verbatim>\<open>str.isspace\<close> holds.\<close>

definition isspace :: "nat \<Rightarrow> bool" where
  "isspace c =
     ((9 \<le> c \<and> c \<le> 13) \<or> (28 \<le> c \<and> c \<le> 32) \<or> c = 133 \<or> c = 160 \<or> c = 5760
      \<or> (8192 \<le> c \<and> c \<le> 8202) \<or> c = 8232 \<or> c = 8233 \<or> c = 8239 \<or> c = 8287
      \<or> c = 12288)"

definition strip :: "pystr \<Rightarrow> pystr" where
  "strip s = rev (dropWhile isspace (rev (dropWhile isspace s)))"

definition blank :: "char \<Rightarrow> bool" where
  \<comment> \<open>\<^verbatim>\<open>isspace\<close> on a character of a source literal\<close>
  "blank c = isspace (of_char c)"


section \<open>The client\<close>

subsection \<open>State\<close>

text \<open>
  The child process behind \<^verbatim>\<open>self.process\<close>, seen from the client.
  \<^item> \<open>stdin\<close>: the documents written so far, each standing for the line
    \<^verbatim>\<open>json.dumps(doc) + "\n"\<close>, oldest first;
  \<^item> \<open>stdin_broken\<close>: the pipe has no reader, a write raises \<^verbatim>\<open>BrokenPipeError\<close>;
  \<^item> \<open>stdout\<close>: the lines \<^verbatim>\<open>readline\<close> is still to return (each one non-empty in a
    real run: \<^verbatim>\<open>readline\<close> returns \<^verbatim>\<open>b""\<close> at end of file only);
  \<^item> \<open>stdout_closed\<close>: after these lines the stream is at end of file; otherwise the
    child stays silent and \<^verbatim>\<open>readline\<close> blocks;
  \<^item> \<open>exits_in_time\<close>: \<^verbatim>\<open>wait(timeout=5)\<close> returns after \<^verbatim>\<open>terminate()\<close>.
\<close>

record popen =
  stdin :: "json list"
  stdin_broken :: bool
  stdout :: "bytes list"
  stdout_closed :: bool
  exits_in_time :: bool

datatype signal = Terminate | Kill

text \<open>
  The fields of \<^verbatim>\<open>LinkedInMCPClient\<close> that the methods read or write, and two logs of
  what the instance has done to the outside: the signals sent to its child and the
  request bodies handed to \<^verbatim>\<open>client.post\<close>.
\<close>

record client =
  transport :: pystr
  process :: "popen option"
  request_id :: int
  signals :: "signal list"
  posted :: "json list"

definition init :: "pystr \<Rightarrow> client" where
  \<comment> \<open>\<^verbatim>\<open>__init__\<close>\<close>
  "init t = \<lparr>transport = t, process = None, request_id = 0, signals = [], posted = []\<rparr>"

text \<open>What one \<^verbatim>\<open>client.post\<close> of the HTTP transport comes back with.\<close>

datatype reply =
    RequestError
      \<comment> \<open>\<^verbatim>\<open>httpx.RequestError\<close>: the request did not get a response\<close>
  | Response nat "json option"
      \<comment> \<open>status code, and the body as \<^verbatim>\<open>response.json()\<close> parses it (\<open>None\<close>: it raises)\<close>

subsection \<open>Request ids\<close>

definition get_next_id :: "client \<Rightarrow> int \<times> client" where
  "get_next_id c = (request_id c + 1, c\<lparr>request_id := request_id c + 1\<rparr>)"

subsection \<open>Reading the next JSON message\<close>

text \<open>
  The loop of \<^verbatim>\<open>_read_next_json_message\<close> over the lines still to come; \<open>loads\<close> is
  \<^verbatim>\<open>json.loads\<close>, with \<open>None\<close> for a \<^verbatim>\<open>JSONDecodeError\<close>.  The result comes with the
  lines left unread.
\<close>

fun read_lines :: "(pystr \<Rightarrow> json option) \<Rightarrow> bool \<Rightarrow> bytes list \<Rightarrow> json outcome \<times> bytes list" where
  "read_lines loads closed [] =
     (if closed then (Raise (LinkedInMCPConnectionError ServerClosedConnection), [])
      else (Hang, []))"
| "read_lines loads closed (line # rest) =
     (if line = [] then (Raise (LinkedInMCPConnectionError ServerClosedConnection), rest)
      else (case decode line of
        None \<Rightarrow> (Raise UnicodeDecodeError, rest)
      | Some text \<Rightarrow>
          (let decoded_line = strip text in
           if decoded_line = [] then read_lines loads closed rest
           else (case loads decoded_line of
             Some message \<Rightarrow> (Return message, rest)
           | None \<Rightarrow> read_lines loads closed rest))))"

definition read_next_json_message :: "(pystr \<Rightarrow> json option) \<Rightarrow> client \<Rightarrow> json outcome \<times> client" where
  "read_next_json_message loads c =
     (case process c of
        None \<Rightarrow> (Raise AttributeError, c)
      | Some p \<Rightarrow>
          let (r, rest) = read_lines loads (stdout_closed p) (stdout p)
          in (r, c\<lparr>process := Some (p\<lparr>stdout := rest\<rparr>)\<rparr>))"

subsection \<open>Sending a request\<close>

definition stdin_write :: "json \<Rightarrow> popen \<Rightarrow> exn + popen" where
  \<comment> \<open>\<^verbatim>\<open>stdin.write\<close> and \<^verbatim>\<open>stdin.flush\<close> of one document\<close>
  "stdin_write doc p = (if stdin_broken p then Inl BrokenPipeError else Inr (p\<lparr>stdin := stdin p @ [doc]\<rparr>))"

definition request :: "int \<Rightarrow> pystr \<Rightarrow> json \<Rightarrow> json" where
  "request i method params =
     JDict [(py ''jsonrpc'', JStr (py ''2.0'')),
            (py ''id'', JInt i),
            (py ''method'', JStr method),
            (py ''params'', if truthy params then params else JDict [])]"

text \<open>
  What both transports do with a parsed response (lines 94 to 103 and, word for word,
  124 to 133 of the client).
\<close>

definition respond :: "json \<Rightarrow> json outcome" where
  "respond response =
     (case contains (py ''error'') response of
        Inl e \<Rightarrow> Raise e
      | Inr True \<Rightarrow>
          (case subscript response (py ''error'') of
             Inl e \<Rightarrow> Raise e
           | Inr error \<Rightarrow>
               (case get error (py ''message'') (JStr (py ''Unknown error'')) of
                  Inl e \<Rightarrow> Raise e
                | Inr error_msg \<Rightarrow>
                    (case get error (py ''code'') (JInt (- 1)) of
                       Inl e \<Rightarrow> Raise e
                     | Inr error_code \<Rightarrow>
                         if eq_int error_code (- 32000)
                         then Raise (LinkedInMCPAuthenticationError error_msg)
                         else Raise (LinkedInMCPToolError error_msg))))
      | Inr False \<Rightarrow>
          (case get response (py ''result'') (JDict []) of
             Inl e \<Rightarrow> Raise e
           | Inr result \<Rightarrow> Return result))"

definition send_request_stdio ::
  "(pystr \<Rightarrow> json option) \<Rightarrow> pystr \<Rightarrow> json \<Rightarrow> client \<Rightarrow> json outcome \<times> client" where
  "send_request_stdio loads method params c =
     (case process c of
        None \<Rightarrow> (Raise (LinkedInMCPConnectionError ServerProcessNotStarted), c)
      | Some p \<Rightarrow>
          let (i, c1) = get_next_id c in
          (case stdin_write (request i method params) p of
             Inl e \<Rightarrow> (Raise e, c1)
           | Inr p' \<Rightarrow>
               (case read_next_json_message loads (c1\<lparr>process := Some p'\<rparr>) of
                  (Return response, c2) \<Rightarrow> (respond response, c2)
                | (Raise e, c2) \<Rightarrow> (Raise e, c2)
                | (Hang, c2) \<Rightarrow> (Hang, c2))))"

definition send_request_http :: "reply \<Rightarrow> pystr \<Rightarrow> json \<Rightarrow> client \<Rightarrow> json outcome \<times> client" where
  "send_request_http rep method params c =
     (let (i, c1) = get_next_id c;
          c2 = c1\<lparr>posted := posted c1 @ [request i method params]\<rparr>
      in (case rep of
        RequestError \<Rightarrow> (Raise (LinkedInMCPConnectionError HTTPRequestFailed), c2)
      | Response status body \<Rightarrow>
          (if \<not> (200 \<le> status \<and> status \<le> 299) then (Raise (HTTPStatusError status), c2)
           else (case body of
                   None \<Rightarrow> (Raise JSONDecodeError, c2)
                 | Some result \<Rightarrow> (respond result, c2)))))"

definition send_request ::
  "(pystr \<Rightarrow> json option) \<Rightarrow> reply \<Rightarrow> pystr \<Rightarrow> json \<Rightarrow> client \<Rightarrow> json outcome \<times> client" where
  "send_request loads rep method params c =
     (if transport c = py ''stdio'' then send_request_stdio loads method params c
      else if transport c = py ''http'' then send_request_http rep method params c
      else (Raise (LinkedInMCPError (py ''Unknown transport: '' @ transport c)), c))"

subsection \<open>Session: connect, handshake, disconnect\<close>

definition init_request :: json where
  "init_request =
     JDict [(py ''jsonrpc'', JStr (py ''2.0'')),
            (py ''id'', JInt 1),
            (py ''method'', JStr (py ''initialize'')),
            (py ''params'',
               JDict [(py ''protocolVersion'', JStr (py ''2024-11-05'')),
                      (py ''capabilities'', JDict []),
                      (py ''clientInfo'',
                         JDict [(py ''name'', JStr (py ''linkedin-mcp-client'')),
                                (py ''version'', JStr (py ''0.1.0''))])])]"

definition initialized :: json where
  "initialized =
     JDict [(py ''jsonrpc'', JStr (py ''2.0'')),
            (py ''method'', JStr (py ''notifications/initialized''))]"

definition initialize :: "(pystr \<Rightarrow> json option) \<Rightarrow> client \<Rightarrow> unit outcome \<times> client" where
  "initialize loads c =
     (case process c of
        None \<Rightarrow> (Raise AttributeError, c)
      | Some p \<Rightarrow>
          (case stdin_write init_request p of
             Inl e \<Rightarrow> (Raise e, c)
           | Inr p' \<Rightarrow>
               (case read_next_json_message loads (c\<lparr>process := Some p'\<rparr>) of
                  (Raise e, c2) \<Rightarrow> (Raise e, c2)
                | (Hang, c2) \<Rightarrow> (Hang, c2)
                | (Return response, c2) \<Rightarrow>
                    (case contains (py ''error'') response of
                       Inl e \<Rightarrow> (Raise e, c2)
                     | Inr True \<Rightarrow>
                         (case subscript response (py ''error'') of
                            Inl e \<Rightarrow> (Raise e, c2)
                          | Inr error \<Rightarrow>
                              (Raise (LinkedInMCPConnectionError (InitializeFailed error)), c2))
                     | Inr False \<Rightarrow>
                         (case process c2 of
                            None \<Rightarrow> (Raise AttributeError, c2)
                          | Some p2 \<Rightarrow>
                              (case stdin_write initialized p2 of
                                 Inl e \<Rightarrow> (Raise e, c2)
                               | Inr p3 \<Rightarrow> (Return (), c2\<lparr>process := Some p3\<rparr>)))))))"

text \<open>
  \<open>spawn\<close> is what \<^verbatim>\<open>subprocess.Popen\<close> does: it raises or gives the new child.
  Every exception of the \<^verbatim>\<open>try\<close> block is an \<^verbatim>\<open>Exception\<close> and is wrapped.  The HTTP
  branch swallows whatever its probe raises.
\<close>

definition connect ::
  "exn + popen \<Rightarrow> (pystr \<Rightarrow> json option) \<Rightarrow> client \<Rightarrow> unit outcome \<times> client" where
  "connect spawn loads c =
     (if transport c = py ''stdio'' then
        (case process c of
           Some p \<Rightarrow> (Return (), c)
         | None \<Rightarrow>
             (case spawn of
                Inl e \<Rightarrow> (Raise (LinkedInMCPConnectionError (FailedToStartServer e)), c)
              | Inr p \<Rightarrow>
                  (case initialize loads (c\<lparr>process := Some p\<rparr>) of
                     (Return u, c') \<Rightarrow> (Return (), c')
                   | (Raise e, c') \<Rightarrow>
                       (Raise (LinkedInMCPConnectionError (FailedToStartServer e)), c')
                   | (Hang, c') \<Rightarrow> (Hang, c'))))
      else if transport c = py ''http'' then (Return (), c)
      else (Return (), c))"

definition disconnect :: "client \<Rightarrow> unit outcome \<times> client" where
  "disconnect c =
     (case process c of
        None \<Rightarrow> (Return (), c)
      | Some p \<Rightarrow>
          (let c1 = c\<lparr>signals := signals c @ [Terminate]\<rparr>;
               c2 = (if exits_in_time p then c1 else c1\<lparr>signals := signals c1 @ [Kill]\<rparr>)
           in (Return (), c2\<lparr>process := None\<rparr>)))"

subsection \<open>Tool calls\<close>

definition list_tools ::
  "(pystr \<Rightarrow> json option) \<Rightarrow> reply \<Rightarrow> client \<Rightarrow> json outcome \<times> client" where
  "list_tools loads rep c =
     (case send_request loads rep (py ''tools/list'') (JDict []) c of
        (Return result, c') \<Rightarrow>
          (case get result (py ''tools'') (JList []) of
             Inl e \<Rightarrow> (Raise e, c')
           | Inr tools \<Rightarrow> (Return tools, c'))
      | (Raise e, c') \<Rightarrow> (Raise e, c')
      | (Hang, c') \<Rightarrow> (Hang, c'))"

definition call_tool ::
  "(pystr \<Rightarrow> json option) \<Rightarrow> reply \<Rightarrow> pystr \<Rightarrow> json \<Rightarrow> client \<Rightarrow> json outcome \<times> client" where
  "call_tool loads rep name arguments c =
     send_request loads rep (py ''tools/call'')
       (JDict [(py ''name'', JStr name), (py ''arguments'', arguments)]) c"

text \<open>
  The argument dictionaries of the two facade methods with optional arguments.  An
  argument is any Python value; \<open>JNone\<close> is the default \<^verbatim>\<open>None\<close>.
\<close>

definition get_company_posts_args :: "json \<Rightarrow> json \<Rightarrow> (pystr \<times> json) list" where
  "get_company_posts_args url limit =
     [(py ''url'', url)] @ (if limit \<noteq> JNone then [(py ''limit'', limit)] else [])"

definition get_company_posts ::
  "(pystr \<Rightarrow> json option) \<Rightarrow> reply \<Rightarrow> json \<Rightarrow> json \<Rightarrow> client \<Rightarrow> json outcome \<times> client" where
  "get_company_posts loads rep url limit c =
     call_tool loads rep (py ''get_company_posts'') (JDict (get_company_posts_args url limit)) c"

definition search_jobs_args :: "json \<Rightarrow> json \<Rightarrow> json \<Rightarrow> json \<Rightarrow> (pystr \<times> json) list" where
  "search_jobs_args keywords location limit time_posted =
     (if truthy keywords then [(py ''keywords'', keywords)] else [])
     @ (if truthy location then [(py ''location'', location)] else [])
     @ (if truthy limit then [(py ''limit'', limit)] else [])
     @ (if truthy time_posted then [(py ''time_posted'', time_posted)] else [])"

definition search_jobs ::
  "(pystr \<Rightarrow> json option) \<Rightarrow> reply \<Rightarrow> json \<Rightarrow> json \<Rightarrow> json \<Rightarrow> json \<Rightarrow> client
     \<Rightarrow> json outcome \<times> client" where
  "search_jobs loads rep keywords location limit time_posted c =
     call_tool loads rep (py ''search_jobs'')
       (JDict (search_jobs_args keywords location limit time_posted)) c"

subsection \<open>Lines, messages and sequences of calls\<close>

text \<open>
  What one turn of the loop of \<^verbatim>\<open>_read_next_json_message\<close> makes of a line: the end of
  the stream, a \<^verbatim>\<open>UnicodeDecodeError\<close>, a line passed over (blank, or not JSON), or a
  message.
\<close>

datatype kind = Eof | Undecodable | Noise | Message json

definition classify :: "(pystr \<Rightarrow> json option) \<Rightarrow> bytes \<Rightarrow> kind" where
  "classify loads line =
     (if line = [] then Eof
      else (case decode line of
              None \<Rightarrow> Undecodable
            | Some text \<Rightarrow>
                (let decoded_line = strip text in
                 if decoded_line = [] then Noise
                 else (case loads decoded_line of Some message \<Rightarrow> Message message | None \<Rightarrow> Noise))))"

fun messages :: "(pystr \<Rightarrow> json option) \<Rightarrow> bytes list \<Rightarrow> json list" where
  "messages loads [] = []"
| "messages loads (line # rest) =
     (case classify loads line of
        Message m \<Rightarrow> m # messages loads rest
      | _ \<Rightarrow> messages loads rest)"

definition readable :: "(pystr \<Rightarrow> json option) \<Rightarrow> bytes \<Rightarrow> bool" where
  \<comment> \<open>a non-empty line of well-formed UTF-8\<close>
  "readable loads line = (classify loads line \<noteq> Eof \<and> classify loads line \<noteq> Undecodable)"

text \<open>A caller that awaits one call after the other, each a method with its parameters.\<close>

fun run_calls ::
  "(pystr \<Rightarrow> json option) \<Rightarrow> (pystr \<times> json) list \<Rightarrow> client \<Rightarrow> json outcome list \<times> client" where
  "run_calls loads [] c = ([], c)"
| "run_calls loads ((method, params) # calls) c =
     (let (r, c1) = send_request_stdio loads method params c;
          (rs, c2) = run_calls loads calls c1
      in (r # rs, c2))"

fun ids :: "json list \<Rightarrow> int list" where
  \<comment> \<open>the ids of the requests among the documents written (a notification has none)\<close>
  "ids [] = []"
| "ids (JDict kvs # docs) =
     (case map_of kvs (py ''id'') of Some (JInt i) \<Rightarrow> i # ids docs | _ \<Rightarrow> ids docs)"
| "ids (doc # docs) = ids docs"

subsection \<open>Two calls on one instance\<close>

text \<open>
  \<^verbatim>\<open>_send_request_stdio\<close> is a coroutine.  It runs without interruption from its start
  to its first \<^verbatim>\<open>await asyncio.to_thread(readline)\<close>, and again from the return of each
  \<^verbatim>\<open>readline\<close> to the next one or to its end; at each of these awaits the event loop may
  run another coroutine.  No statement of the class acquires \<^verbatim>\<open>self._lock\<close>, so the
  steps below are all there is.  A task is a call that has not started, one suspended
  in \<^verbatim>\<open>readline\<close> after its request was written, or one that has finished.
\<close>

datatype task = Pending pystr json | Awaiting | Done "json outcome"

definition task_step ::
  "(pystr \<Rightarrow> json option) \<Rightarrow> task \<Rightarrow> client \<Rightarrow> (task \<times> client) option" where
  "task_step loads t c =
     (case t of
        Done r \<Rightarrow> None
      | Pending method params \<Rightarrow>
          (case process c of
             None \<Rightarrow> Some (Done (Raise (LinkedInMCPConnectionError ServerProcessNotStarted)), c)
           | Some p \<Rightarrow>
               let (i, c1) = get_next_id c in
               (case stdin_write (request i method params) p of
                  Inl e \<Rightarrow> Some (Done (Raise e), c1)
                | Inr p' \<Rightarrow> Some (Awaiting, c1\<lparr>process := Some p'\<rparr>)))
      | Awaiting \<Rightarrow>
          (case process c of
             None \<Rightarrow> Some (Done (Raise AttributeError), c)
           | Some p \<Rightarrow>
               (case stdout p of
                  [] \<Rightarrow>
                    if stdout_closed p
                    then Some (Done (Raise (LinkedInMCPConnectionError ServerClosedConnection)), c)
                    else None
                | line # rest \<Rightarrow>
                    let c' = c\<lparr>process := Some (p\<lparr>stdout := rest\<rparr>)\<rparr> in
                    if line = []
                    then Some (Done (Raise (LinkedInMCPConnectionError ServerClosedConnection)), c')
                    else (case decode line of
                            None \<Rightarrow> Some (Done (Raise UnicodeDecodeError), c')
                          | Some text \<Rightarrow>
                              (let decoded_line = strip text in
                               if decoded_line = [] then Some (Awaiting, c')
                               else (case loads decoded_line of
                                       Some message \<Rightarrow> Some (Done (respond message), c')
                                     | None \<Rightarrow> Some (Awaiting, c')))))))"

text \<open>
  A schedule is the order in which the event loop resumes the tasks; a task that cannot
  move (finished, or blocked in \<^verbatim>\<open>readline\<close>) is passed over.
\<close>

fun run :: "(pystr \<Rightarrow> json option) \<Rightarrow> nat list \<Rightarrow> task list \<times> client \<Rightarrow> task list \<times> client" where
  "run loads [] s = s"
| "run loads (i # sched) (ts, c) =
     (if i < length ts then
        (case task_step loads (ts ! i) c of
           Some (t', c') \<Rightarrow> run loads sched (ts[i := t'], c')
         | None \<Rightarrow> run loads sched (ts, c))
      else run loads sched (ts, c))"

definition in_flight :: "task list \<Rightarrow> nat" where
  \<comment> \<open>requests written whose call has read no response yet\<close>
  "in_flight ts = length (filter (\<lambda>t. t = Awaiting) ts)"

subsection \<open>The documents of the examples\<close>

text \<open>
  A child with a writable pipe that emits the given lines, and a client of the subprocess
  transport that holds it.
\<close>

definition child :: "bytes list \<Rightarrow> bool \<Rightarrow> popen" where
  "child lines closed =
     \<lparr>stdin = [], stdin_broken = False, stdout = lines, stdout_closed = closed,
      exits_in_time = True\<rparr>"

definition started :: "bytes list \<Rightarrow> bool \<Rightarrow> client" where
  "started lines closed = (init (py ''stdio''))\<lparr>process := Some (child lines closed)\<rparr>"

definition written :: "client \<Rightarrow> json list" where
  \<comment> \<open>the documents on the child's input so far\<close>
  "written c = (case process c of None \<Rightarrow> [] | Some p \<Rightarrow> stdin p)"

text \<open>
  \<^verbatim>\<open>json.loads\<close> on the six documents the examples below put on the wire; no other line
  of the examples is JSON.
\<close>

definition sample_loads :: "pystr \<Rightarrow> json option" where
  \<open>sample_loads s =
     (if s = py ''{}'' then Some (JDict [])
      else if s = py ''{"id": 1, "result": "first"}''
        then Some (JDict [(py ''id'', JInt 1), (py ''result'', JStr (py ''first''))])
      else if s = py ''{"id": 2, "result": "second"}''
        then Some (JDict [(py ''id'', JInt 2), (py ''result'', JStr (py ''second''))])
      else if s = py ''{"id": 7, "result": "other"}''
        then Some (JDict [(py ''id'', JInt 7), (py ''result'', JStr (py ''other''))])
      else if s = py ''{"id": 1, "error": null, "result": 5}''
        then Some (JDict [(py ''id'', JInt 1), (py ''error'', JNone), (py ''result'', JInt 5)])
      else if s = py ''{"id": 1, "error": {"code": -32000, "message": "login"}}''
        then Some (JDict [(py ''id'', JInt 1),
                          (py ''error'', JDict [(py ''code'', JInt (- 32000)),
                                                (py ''message'', JStr (py ''login''))])])
      else None)\<close>

section \<open>The browser of the server\<close>

text \<open>
  \<^verbatim>\<open>drivers/browser.py\<close> keeps one \<^verbatim>\<open>BrowserManager\<close> in the module global
  \<^verbatim>\<open>_browser\<close>.  Of the manager and its page the model keeps the session file loaded,
  the cookie \<^verbatim>\<open>login_with_cookie\<close> has set, the addresses \<^verbatim>\<open>page.goto\<close> has reached, and
  whether the route that blocks heavy resources is installed.
\<close>

datatype path = DEFAULT_SESSION_PATH | Path pystr

record browser_manager =
  running :: bool
  session :: "path option"
  cookie :: "pystr option"
  visited :: "pystr list"
  blocking :: bool

text \<open>Every call the module makes on a library or on the outside, in order.\<close>

datatype event =
    Start
  | Exists path
  | LoadSession path
  | Route
  | SetDefaultTimeout int
  | Goto pystr
  | IsLoggedIn
  | GetLinkedinCookie
  | LoginWithCookie pystr
  | Close

record globals =
  browser :: "browser_manager option"
  headless :: bool
  trace :: "event list"

text \<open>
  What the libraries and the outside answer: \<^verbatim>\<open>linkedin_scraper\<close>, Playwright, the file
  system, and the two helpers \<^verbatim>\<open>get_config\<close> and \<^verbatim>\<open>get_linkedin_cookie\<close> of the server
  package.  A flag \<open>_ok\<close> that is false means the call raises.
\<close>

record env =
  start_ok :: bool
  file_exists :: "path \<Rightarrow> bool"
  load_session_ok :: "path \<Rightarrow> bool"
  goto_ok :: bool
  is_logged_in :: "browser_manager \<Rightarrow> bool"
  linkedin_cookie :: "pystr option"
  login_ok :: "pystr \<Rightarrow> bool"
  default_timeout :: int

datatype server_exn =
    AuthenticationError pystr
  | LibraryError
      \<comment> \<open>whatever a failing library call raises\<close>

definition log :: "event \<Rightarrow> globals \<Rightarrow> globals" where
  "log e g = g\<lparr>trace := trace g @ [e]\<rparr>"

definition apply_browser_settings :: "env \<Rightarrow> globals \<Rightarrow> globals" where
  "apply_browser_settings E g = log (SetDefaultTimeout (default_timeout E)) g"

definition feed :: pystr where
  "feed = py ''https://www.linkedin.com/feed/''"

text \<open>Lines 157 to 176: the cookie, then the failure.  \<open>b\<close> is the manager in \<^verbatim>\<open>_browser\<close>.\<close>

definition from_cookie :: "env \<Rightarrow> browser_manager \<Rightarrow> globals \<Rightarrow> (server_exn + browser_manager) \<times> globals" where
  "from_cookie E b g =
     (let g1 = log GetLinkedinCookie g;
          no_auth = AuthenticationError
            (py ''No authentication found. Run with --get-session to create a session.'')
      in (case linkedin_cookie E of
            None \<Rightarrow> (Inl no_auth, g1)
          | Some c \<Rightarrow>
              if c = [] then (Inl no_auth, g1)
              else
                (let b1 = b\<lparr>blocking := True\<rparr>;
                     g2 = log (LoginWithCookie c)
                            (log (SetDefaultTimeout 120000) (log Route (g1\<lparr>browser := Some b1\<rparr>)))
                 in if login_ok E c then
                      (let b2 = b1\<lparr>cookie := Some c\<rparr>
                       in (Inr b2, apply_browser_settings E (g2\<lparr>browser := Some b2\<rparr>)))
                    else (Inl no_auth, g2))))"

definition get_or_create_browser ::
  "env \<Rightarrow> bool option \<Rightarrow> path option \<Rightarrow> globals \<Rightarrow> (server_exn + browser_manager) \<times> globals" where
  "get_or_create_browser E headless_arg session_path_arg g0 =
     (let g = (case headless_arg of None \<Rightarrow> g0 | Some h \<Rightarrow> g0\<lparr>headless := h\<rparr>);
          session_path = (case session_path_arg of None \<Rightarrow> DEFAULT_SESSION_PATH | Some sp \<Rightarrow> sp)
      in (case browser g of
            Some b \<Rightarrow> (Inr b, g)
          | None \<Rightarrow>
              (let b0 = \<lparr>running = False, session = None, cookie = None, visited = [],
                         blocking = False\<rparr>;
                   g1 = log Start (g\<lparr>browser := Some b0\<rparr>)
               in if \<not> start_ok E then (Inl LibraryError, g1)
                  else
                    (let b1 = b0\<lparr>running := True\<rparr>;
                         g2 = log (Exists session_path) (g1\<lparr>browser := Some b1\<rparr>)
                     in if file_exists E session_path then
                          (let g3 = log (LoadSession session_path) g2
                           in if \<not> load_session_ok E session_path then from_cookie E b1 g3
                              else
                                (let b2 = b1\<lparr>session := Some session_path, blocking := True\<rparr>;
                                     g4 = log (Goto feed)
                                            (log (SetDefaultTimeout 120000)
                                               (log Route (g3\<lparr>browser := Some b2\<rparr>)))
                                 in if \<not> goto_ok E then from_cookie E b2 g4
                                    else
                                      (let b3 = b2\<lparr>visited := visited b2 @ [feed]\<rparr>;
                                           g5 = log IsLoggedIn (g4\<lparr>browser := Some b3\<rparr>)
                                       in if is_logged_in E b3
                                          then (Inr b3, apply_browser_settings E g5)
                                          else from_cookie E b3 g5)))
                        else from_cookie E b1 g2))))"

definition close_browser :: "globals \<Rightarrow> globals" where
  "close_browser g =
     (case browser g of
        None \<Rightarrow> g
      | Some b \<Rightarrow> (log Close g)\<lparr>browser := None\<rparr>)"

definition validate_session :: "env \<Rightarrow> globals \<Rightarrow> (server_exn + bool) \<times> globals" where
  "validate_session E g =
     (case get_or_create_browser E None None g of
        (Inl e, g') \<Rightarrow> (Inl e, g')
      | (Inr b, g') \<Rightarrow> (Inr (is_logged_in E b), log IsLoggedIn g'))"

definition ensure_authenticated :: "env \<Rightarrow> globals \<Rightarrow> (server_exn + unit) \<times> globals" where
  "ensure_authenticated E g =
     (case validate_session E g of
        (Inl e, g') \<Rightarrow> (Inl e, g')
      | (Inr valid, g') \<Rightarrow>
          if \<not> valid then (Inl (AuthenticationError (py ''Session expired or invalid.'')), g')
          else (Inr (), g'))"

definition navigation :: "event \<Rightarrow> bool" where
  \<comment> \<open>the calls that load a page\<close>
  "navigation e = (case e of Goto u \<Rightarrow> True | LoginWithCookie c \<Rightarrow> True | _ \<Rightarrow> False)"

text \<open>
  The state of the module when it is loaded, and an outside for the examples: the
  browser starts, a session file (when there is one) loads and the feed is reached, a
  cookie (when there is one) logs in, and a page counts as logged in when it carries a
  session or a cookie.
\<close>

definition module_loaded :: globals where
  "module_loaded = \<lparr>browser = None, headless = True, trace = []\<rparr>"

definition sample_env :: "bool \<Rightarrow> pystr option \<Rightarrow> env" where
  "sample_env has_session ck =
     \<lparr>start_ok = True, file_exists = (\<lambda>p. has_session), load_session_ok = (\<lambda>p. True),
      goto_ok = True,
      is_logged_in = (\<lambda>b. case session b of Some s \<Rightarrow> True
                             | None \<Rightarrow> (case cookie b of Some c \<Rightarrow> True | None \<Rightarrow> False)),
      linkedin_cookie = ck, login_ok = (\<lambda>c. True), default_timeout = 5000\<rparr>"

section \<open>Properties of the client\<close>

subsection \<open>Evaluating the decoder on source literals\<close>

lemma py_inject [simp]: "py a = py b \<longleftrightarrow> a = b"
  by (simp add: py_def inj_map_eq_map [OF inj_of_char])

lemma py_Nil [simp]: "py s = [] \<longleftrightarrow> s = []"
  by (simp add: py_def)

lemma of_char_ascii: "\<not> digit7 c \<Longrightarrow> of_char c < (128::nat)"
  by (cases c) simp

lemma utf8_ascii: "list_all (\<lambda>c. \<not> digit7 c) l \<Longrightarrow> utf8 (map of_char l) = Some (map of_char l)"
  by (induction l) (simp_all add: of_char_ascii)

lemma decode_ascii: "list_all (\<lambda>c. \<not> digit7 c) l \<Longrightarrow> decode l = Some (py l)"
  by (simp add: decode_def py_def utf8_ascii)

lemma strip_py: "strip (py l) = py (rev (dropWhile blank (rev (dropWhile blank l))))"
proof -
  have "isspace \<circ> of_char = blank" by (auto simp: blank_def)
  then show ?thesis
    by (simp add: strip_def py_def dropWhile_map rev_map)
qed

lemma blank_newline [simp]: "blank CHR 0x0A"
  by (simp add: blank_def isspace_def)

lemma blank_ascii [simp]:
  "blank CHR ''{'' = False" "blank CHR ''}'' = False" "blank CHR ''d'' = False" "blank CHR ''p'' = False"
  by (simp_all add: blank_def isspace_def)

lemma read_lines_Cons:
  "read_lines loads closed (line # rest) =
     (case classify loads line of
        Eof \<Rightarrow> (Raise (LinkedInMCPConnectionError ServerClosedConnection), rest)
      | Undecodable \<Rightarrow> (Raise UnicodeDecodeError, rest)
      | Noise \<Rightarrow> read_lines loads closed rest
      | Message m \<Rightarrow> (Return m, rest))"
  by (simp add: classify_def Let_def split: option.split)

declare read_lines.simps(2) [simp del]

lemma classify_ascii:
  "line \<noteq> [] \<Longrightarrow> list_all (\<lambda>c. \<not> digit7 c) line \<Longrightarrow>
   classify loads line =
     (let d = rev (dropWhile blank (rev (dropWhile blank line)))
      in if d = [] then Noise else (case loads (py d) of Some m \<Rightarrow> Message m | None \<Rightarrow> Noise))"
  by (simp add: classify_def decode_ascii strip_py Let_def)

lemma send_request_stdio_started:
  "process c = Some p \<Longrightarrow> \<not> stdin_broken p \<Longrightarrow>
   send_request_stdio loads method params c =
     (case read_lines loads (stdout_closed p) (stdout p) of
        (r, rest) \<Rightarrow>
          ((case r of Return response \<Rightarrow> respond response | Raise e \<Rightarrow> Raise e | Hang \<Rightarrow> Hang),
           c\<lparr>request_id := request_id c + 1,
             process := Some (p\<lparr>stdin := stdin p @ [request (request_id c + 1) method params],
                                stdout := rest\<rparr>)\<rparr>))"
  by (auto simp: send_request_stdio_def get_next_id_def stdin_write_def
      read_next_json_message_def Let_def split: prod.splits outcome.splits)

subsection \<open>What the response handler can raise\<close>

lemma contains_Inl: "contains k v = Inl e \<Longrightarrow> e = TypeError"
  by (cases v) auto

lemma subscript_Inl: "subscript v k = Inl e \<Longrightarrow> e = TypeError \<or> e = KeyError"
  by (cases v) (auto split: option.splits)

lemma get_Inl: "get v k d = Inl e \<Longrightarrow> e = AttributeError"
  by (cases v) auto

lemma respond_cases:
  "respond r = Raise TypeError \<or> respond r = Raise KeyError \<or> respond r = Raise AttributeError
   \<or> (\<exists>m. respond r = Raise (LinkedInMCPAuthenticationError m))
   \<or> (\<exists>m. respond r = Raise (LinkedInMCPToolError m))
   \<or> (\<exists>v. respond r = Return v)"
  unfolding respond_def
  by (auto split: sum.split bool.split dest: contains_Inl subscript_Inl get_Inl)

lemma respond_not_connection_error: "respond r \<noteq> Raise (LinkedInMCPConnectionError x)"
  using respond_cases [of r] by auto

lemma respond_not_hang: "respond r \<noteq> Hang"
  using respond_cases [of r] by auto

subsection \<open>Disconnecting twice\<close>

text \<open>
  Claim C8.  \<^verbatim>\<open>disconnect()\<close> always returns; called again, or called on a client that
  holds no process, it returns and leaves the whole state as it was, the log of the
  signals sent included: the child is terminated or killed at most once.
\<close>

theorem disconnect_idempotent:
  "fst (disconnect c) = Return ()
   \<and> disconnect (snd (disconnect c)) = (Return (), snd (disconnect c))
   \<and> disconnect (c\<lparr>process := None\<rparr>) = (Return (), c\<lparr>process := None\<rparr>)
   \<and> signals (snd (disconnect (snd (disconnect c)))) = signals (snd (disconnect c))"
  by (simp add: disconnect_def Let_def split: option.split)

theorem disconnect_idempotent_witness:
  "disconnect (snd (disconnect (started [] False)))
     = (Return (), (init (py ''stdio''))\<lparr>signals := [Terminate]\<rparr>)
   \<and> signals (snd (disconnect (snd (disconnect (started [] False))))) = [Terminate]"
  using disconnect_idempotent [of "started [] False"]
  by (simp add: disconnect_def started_def child_def init_def)

subsection \<open>Reading and answering\<close>

lemma read_lines_noise:
  "classify loads line = Noise \<Longrightarrow> read_lines loads closed (line # rest) = read_lines loads closed rest"
  by (simp add: read_lines_Cons)

lemma read_lines_connection_error:
  "\<forall>l \<in> set lines. l \<noteq> [] \<Longrightarrow>
   (fst (read_lines loads closed lines) = Raise (LinkedInMCPConnectionError x))
   \<longleftrightarrow> (x = ServerClosedConnection \<and> closed \<and> (\<forall>l \<in> set lines. classify loads l = Noise))"
proof (induction lines)
  case Nil
  then show ?case by auto
next
  case (Cons l ls)
  then have ne: "classify loads l \<noteq> Eof"
    by (auto simp: classify_def Let_def split: option.splits)
  show ?case
  proof (cases "classify loads l")
    case Eof
    with ne show ?thesis by simp
  next
    case Undecodable
    then show ?thesis by (simp add: read_lines_Cons)
  next
    case Noise
    with Cons show ?thesis by (simp add: read_lines_Cons)
  next
    case (Message m)
    then show ?thesis by (simp add: read_lines_Cons)
  qed
qed

lemma connection_error_iff:
  assumes "\<And>p. process c = Some p \<Longrightarrow> \<not> stdin_broken p \<and> [] \<notin> set (stdout p)"
  shows "(\<exists>x. fst (send_request_stdio loads method params c) = Raise (LinkedInMCPConnectionError x))
     \<longleftrightarrow> (process c = None
          \<or> (\<exists>p. process c = Some p \<and> stdout_closed p
                \<and> (\<forall>l \<in> set (stdout p). classify loads l = Noise)))"
proof (cases "process c")
  case None
  then show ?thesis by (simp add: send_request_stdio_def)
next
  case (Some p)
  with assms have ok: "\<not> stdin_broken p" and ne: "\<forall>l \<in> set (stdout p). l \<noteq> []" by auto
  obtain r rest where rl: "read_lines loads (stdout_closed p) (stdout p) = (r, rest)"
    by (cases "read_lines loads (stdout_closed p) (stdout p)")
  have "\<And>x. (fst (send_request_stdio loads method params c) = Raise (LinkedInMCPConnectionError x))
      \<longleftrightarrow> r = Raise (LinkedInMCPConnectionError x)"
    using rl by (cases r) (auto simp: send_request_stdio_started [OF Some ok] respond_not_connection_error)
  moreover have "\<And>x. r = Raise (LinkedInMCPConnectionError x)
      \<longleftrightarrow> (x = ServerClosedConnection \<and> stdout_closed p \<and> (\<forall>l \<in> set (stdout p). classify loads l = Noise))"
    using read_lines_connection_error [OF ne, of loads "stdout_closed p"] rl by simp
  ultimately show ?thesis using Some by auto
qed


lemma respond_ignores_id: "respond (JDict ((py ''id'', i) # kvs)) = respond (JDict kvs)"
  by (simp add: respond_def split: bool.split)

lemma read_lines_readable:
  "\<forall>l \<in> set lines. readable loads l \<Longrightarrow> messages loads lines = m # ms \<Longrightarrow>
   \<exists>rest. read_lines loads closed lines = (Return m, rest) \<and> messages loads rest = ms
      \<and> (\<forall>l \<in> set rest. readable loads l)"
proof (induction lines)
  case Nil
  then show ?case by simp
next
  case (Cons l ls)
  show ?case
  proof (cases "classify loads l")
    case Eof
    with Cons.prems show ?thesis by (simp add: readable_def)
  next
    case Undecodable
    with Cons.prems show ?thesis by (simp add: readable_def)
  next
    case Noise
    with Cons show ?thesis by (simp add: read_lines_Cons)
  next
    case (Message x)
    with Cons.prems show ?thesis by (simp add: read_lines_Cons)
  qed
qed

lemma run_calls_in_order:
  "process c = Some p \<Longrightarrow> \<not> stdin_broken p \<Longrightarrow> \<forall>l \<in> set (stdout p). readable loads l \<Longrightarrow>
   length calls \<le> length (messages loads (stdout p)) \<Longrightarrow>
   fst (run_calls loads calls c) = map respond (take (length calls) (messages loads (stdout p)))"
proof (induction calls arbitrary: c p)
  case Nil
  then show ?case by simp
next
  case (Cons call calls)
  obtain m0 ps where call: "call = (m0, ps)" by (cases call)
  from Cons.prems(4) obtain m ms where ms: "messages loads (stdout p) = m # ms"
    by (cases "messages loads (stdout p)") auto
  from read_lines_readable [OF Cons.prems(3) ms, of "stdout_closed p"]
  obtain rest where rest: "read_lines loads (stdout_closed p) (stdout p) = (Return m, rest)"
    "messages loads rest = ms" "\<forall>l \<in> set rest. readable loads l" by blast
  define p1 where "p1 = p\<lparr>stdin := stdin p @ [request (request_id c + 1) m0 ps], stdout := rest\<rparr>"
  define c1 where "c1 = c\<lparr>request_id := request_id c + 1, process := Some p1\<rparr>"
  have step: "send_request_stdio loads m0 ps c = (respond m, c1)"
    using rest(1) by (simp add: send_request_stdio_started [OF Cons.prems(1,2)] c1_def p1_def)
  have "fst (run_calls loads calls c1) = map respond (take (length calls) (messages loads (stdout p1)))"
  proof (rule Cons.IH)
    show "process c1 = Some p1" by (simp add: c1_def)
    show "\<not> stdin_broken p1" using Cons.prems(2) by (simp add: p1_def)
    show "\<forall>l \<in> set (stdout p1). readable loads l" using rest(3) by (simp add: p1_def)
    show "length calls \<le> length (messages loads (stdout p1))"
      using Cons.prems(4) ms rest(2) by (simp add: p1_def)
  qed
  then show ?case
    using step ms rest(2) by (simp add: call p1_def case_prod_beta)
qed

subsection \<open>The lines of the examples\<close>

lemma line_first [simp]:
  \<open>classify sample_loads ''{"id": 1, "result": "first"}\<newline>'' =
     Message (JDict [(py ''id'', JInt 1), (py ''result'', JStr (py ''first''))])\<close>
  by (simp add: classify_ascii sample_loads_def)

lemma line_second [simp]:
  \<open>classify sample_loads ''{"id": 2, "result": "second"}\<newline>'' =
     Message (JDict [(py ''id'', JInt 2), (py ''result'', JStr (py ''second''))])\<close>
  by (simp add: classify_ascii sample_loads_def)

lemma line_other [simp]:
  \<open>classify sample_loads ''{"id": 7, "result": "other"}\<newline>'' =
     Message (JDict [(py ''id'', JInt 7), (py ''result'', JStr (py ''other''))])\<close>
  by (simp add: classify_ascii sample_loads_def)

lemma line_null_error [simp]:
  \<open>classify sample_loads ''{"id": 1, "error": null, "result": 5}\<newline>'' =
     Message (JDict [(py ''id'', JInt 1), (py ''error'', JNone), (py ''result'', JInt 5)])\<close>
  by (simp add: classify_ascii sample_loads_def)

lemma line_login [simp]:
  \<open>classify sample_loads ''{"id": 1, "error": {"code": -32000, "message": "login"}}\<newline>'' =
     Message (JDict [(py ''id'', JInt 1),
                     (py ''error'', JDict [(py ''code'', JInt (- 32000)),
                                           (py ''message'', JStr (py ''login''))])])\<close>
  by (simp add: classify_ascii sample_loads_def)

lemma line_empty_object [simp]: \<open>classify sample_loads ''{}\<newline>'' = Message (JDict [])\<close>
  by (simp add: classify_ascii sample_loads_def)

lemma line_debug [simp]: \<open>classify sample_loads ''debug: starting up\<newline>'' = Noise\<close>
  by (simp add: classify_ascii sample_loads_def)

lemma line_bad_utf8 [simp]: \<open>classify loads [CHR 0xFF, CHR 0x0A] = Undecodable\<close>
  by (simp add: classify_def decode_def)

lemmas started_simps = send_request_stdio_started started_def child_def init_def read_lines_Cons

subsection \<open>Responses and request ids\<close>

text \<open>
  Claim C1 says that each call returns the result of the response that carries its own
  request id, and that a response with an unknown id is a protocol violation.  The
  client never reads the id of a response.  Here two calls get two responses in the
  other order: the call with id 1 returns the result of the response with id 2 and the
  call with id 2 that of the response with id 1; and a single call with id 1 returns
  the result of a response with id 7.
\<close>

theorem response_matched_by_id_counterexample:
  \<open>fst (run_calls sample_loads [(py ''tools/list'', JDict []), (py ''tools/list'', JDict [])]
         (started [''{"id": 2, "result": "second"}\<newline>'', ''{"id": 1, "result": "first"}\<newline>''] True))
     = [Return (JStr (py ''second'')), Return (JStr (py ''first''))]
   \<and> ids (written (snd (run_calls sample_loads
         [(py ''tools/list'', JDict []), (py ''tools/list'', JDict [])]
         (started [''{"id": 2, "result": "second"}\<newline>'', ''{"id": 1, "result": "first"}\<newline>''] True))))
     = [1, 2]
   \<and> fst (send_request_stdio sample_loads (py ''tools/list'') (JDict [])
         (started [''{"id": 7, "result": "other"}\<newline>''] True))
     = Return (JStr (py ''other''))
   \<and> ids (written (snd (send_request_stdio sample_loads (py ''tools/list'') (JDict [])
         (started [''{"id": 7, "result": "other"}\<newline>''] True))))
     = [1]\<close>
  by (simp add: started_simps respond_def written_def request_def)

text \<open>
  Claim C1 as amended.  On the subprocess transport, with a writable pipe and an output
  stream of non-empty, well-formed UTF-8 lines that holds at least as many JSON messages
  as there are calls, the calls awaited one after the other return, in order, what the
  JSON messages of the stream yield in their order of arrival; and what a message
  yields does not depend on the id it carries.
\<close>

theorem calls_answered_in_arrival_order:
  assumes "process c = Some p" and "\<not> stdin_broken p"
    and "\<forall>l \<in> set (stdout p). readable loads l"
    and "length calls \<le> length (messages loads (stdout p))"
  shows "fst (run_calls loads calls c)
           = map respond (take (length calls) (messages loads (stdout p)))
         \<and> respond (JDict ((py ''id'', i) # kvs)) = respond (JDict kvs)"
  using run_calls_in_order [OF assms] respond_ignores_id by simp

lemma messages_swapped [simp]:
  \<open>messages sample_loads [''{"id": 2, "result": "second"}\<newline>'', ''{"id": 1, "result": "first"}\<newline>'']
     = [JDict [(py ''id'', JInt 2), (py ''result'', JStr (py ''second''))],
        JDict [(py ''id'', JInt 1), (py ''result'', JStr (py ''first''))]]\<close>
  by simp

theorem calls_answered_in_arrival_order_witness:
  \<open>process (started [''{"id": 2, "result": "second"}\<newline>'', ''{"id": 1, "result": "first"}\<newline>''] True)
     = Some (child [''{"id": 2, "result": "second"}\<newline>'', ''{"id": 1, "result": "first"}\<newline>''] True)
   \<and> \<not> stdin_broken (child [''{"id": 2, "result": "second"}\<newline>'', ''{"id": 1, "result": "first"}\<newline>''] True)
   \<and> readable sample_loads ''{"id": 2, "result": "second"}\<newline>''
   \<and> readable sample_loads ''{"id": 1, "result": "first"}\<newline>''
   \<and> fst (run_calls sample_loads [(py ''tools/list'', JDict []), (py ''tools/list'', JDict [])]
         (started [''{"id": 2, "result": "second"}\<newline>'', ''{"id": 1, "result": "first"}\<newline>''] True))
     = [Return (JStr (py ''second'')), Return (JStr (py ''first''))]\<close>
proof -
  let ?lines = \<open>[''{"id": 2, "result": "second"}\<newline>'', ''{"id": 1, "result": "first"}\<newline>'']\<close>
  have 1: "process (started ?lines True) = Some (child ?lines True)"
    by (simp add: started_def)
  have 2: "\<not> stdin_broken (child ?lines True)"
    by (simp add: child_def)
  have 3: "\<forall>l \<in> set (stdout (child ?lines True)). readable sample_loads l"
    by (simp add: child_def readable_def)
  have 4: "length [(py ''tools/list'', JDict []), (py ''tools/list'', JDict [])]
      \<le> length (messages sample_loads (stdout (child ?lines True)))"
    by (simp add: child_def)
  show ?thesis
    using calls_answered_in_arrival_order [OF 1 2 3 4] 1 2
    by (simp add: child_def respond_def readable_def)
qed

subsection \<open>Error codes\<close>

text \<open>
  Claim C2 says that a response with no error descriptor makes the call return the
  result.  The client tests whether the key \<^verbatim>\<open>"error"\<close> is present, not whether its value
  is a descriptor: a response with \<^verbatim>\<open>"error": null\<close> and a result makes the call raise
  \<^verbatim>\<open>AttributeError\<close>, on both transports.
\<close>

theorem null_error_counterexample:
  \<open>fst (send_request_stdio sample_loads (py ''tools/list'') (JDict [])
         (started [''{"id": 1, "error": null, "result": 5}\<newline>''] True)) = Raise AttributeError
   \<and> fst (send_request_http
         (Response 200 (Some (JDict [(py ''id'', JInt 1), (py ''error'', JNone), (py ''result'', JInt 5)])))
         (py ''tools/list'') (JDict []) (init (py ''http''))) = Raise AttributeError\<close>
  by (simp add: started_simps respond_def send_request_http_def get_next_id_def)

text \<open>
  Claim C2 as amended.  For a response object received on either transport: without a
  key \<^verbatim>\<open>"error"\<close> the call returns the value of \<^verbatim>\<open>"result"\<close> unchanged (an empty
  dictionary when there is none); with an object under \<^verbatim>\<open>"error"\<close> it raises
  \<^verbatim>\<open>LinkedInMCPAuthenticationError\<close> when the code of the object equals -32000 and
  \<^verbatim>\<open>LinkedInMCPToolError\<close> for any other code or none.
\<close>

theorem error_code_mapping:
  assumes "transport c = py ''http'' \<and> rep = Response status (Some (JDict kvs))
             \<and> 200 \<le> status \<and> status \<le> 299
           \<or> transport c = py ''stdio'' \<and> process c = Some p \<and> \<not> stdin_broken p
             \<and> stdout p = line # rest \<and> classify loads line = Message (JDict kvs)"
  shows "(map_of kvs (py ''error'') = None \<longrightarrow>
            fst (send_request loads rep m ps c)
              = Return (case map_of kvs (py ''result'') of Some v \<Rightarrow> v | None \<Rightarrow> JDict []))
       \<and> (map_of kvs (py ''error'') = Some (JDict e) \<longrightarrow>
            fst (send_request loads rep m ps c)
              = (if eq_int (case map_of e (py ''code'') of Some v \<Rightarrow> v | None \<Rightarrow> JInt (- 1)) (- 32000)
                 then Raise (LinkedInMCPAuthenticationError
                        (case map_of e (py ''message'') of Some v \<Rightarrow> v | None \<Rightarrow> JStr (py ''Unknown error'')))
                 else Raise (LinkedInMCPToolError
                        (case map_of e (py ''message'') of Some v \<Rightarrow> v | None \<Rightarrow> JStr (py ''Unknown error'')))))"
proof -
  have "fst (send_request loads rep m ps c) = respond (JDict kvs)"
    using assms
  proof (elim disjE conjE)
    assume "transport c = py ''http''" "rep = Response status (Some (JDict kvs))"
      "200 \<le> status" "status \<le> 299"
    then show ?thesis
      by (simp add: send_request_def send_request_http_def get_next_id_def)
  next
    assume "transport c = py ''stdio''" "process c = Some p" "\<not> stdin_broken p"
      "stdout p = line # rest" "classify loads line = Message (JDict kvs)"
    then show ?thesis
      by (simp add: send_request_def send_request_stdio_started read_lines_Cons)
  qed
  then show ?thesis
    by (simp add: respond_def)
qed

theorem error_code_mapping_witness:
  \<open>transport (started [''{"id": 1, "error": {"code": -32000, "message": "login"}}\<newline>''] True) = py ''stdio''
   \<and> classify sample_loads ''{"id": 1, "error": {"code": -32000, "message": "login"}}\<newline>''
       = Message (JDict [(py ''id'', JInt 1),
                         (py ''error'', JDict [(py ''code'', JInt (- 32000)),
                                               (py ''message'', JStr (py ''login''))])])
   \<and> fst (send_request sample_loads RequestError (py ''tools/list'') (JDict [])
         (started [''{"id": 1, "error": {"code": -32000, "message": "login"}}\<newline>''] True))
       = Raise (LinkedInMCPAuthenticationError (JStr (py ''login'')))
   \<and> transport (init (py ''http'')) = py ''http''
   \<and> fst (send_request sample_loads
         (Response 200 (Some (JDict [(py ''id'', JInt 1), (py ''error'', JDict [(py ''code'', JInt (- 32601))])])))
         (py ''tools/list'') (JDict []) (init (py ''http'')))
       = Raise (LinkedInMCPToolError (JStr (py ''Unknown error'')))
   \<and> fst (send_request sample_loads
         (Response 200 (Some (JDict [(py ''id'', JInt 1), (py ''result'', JStr (py ''first''))])))
         (py ''tools/list'') (JDict []) (init (py ''http'')))
       = Return (JStr (py ''first''))\<close>
proof -
  let ?line = \<open>''{"id": 1, "error": {"code": -32000, "message": "login"}}\<newline>''\<close>
  let ?kvs = "[(py ''id'', JInt 1),
               (py ''error'', JDict [(py ''code'', JInt (- 32000)), (py ''message'', JStr (py ''login''))])]"
  let ?tool = "[(py ''id'', JInt 1), (py ''error'', JDict [(py ''code'', JInt (- 32601))])]"
  let ?ok = "[(py ''id'', JInt 1), (py ''result'', JStr (py ''first''))]"
  have h: "transport (started [?line] True) = py ''http'' \<and> RequestError = Response 0 (Some (JDict ?kvs))
             \<and> 200 \<le> (0::nat) \<and> (0::nat) \<le> 299
           \<or> transport (started [?line] True) = py ''stdio''
             \<and> process (started [?line] True) = Some (child [?line] True)
             \<and> \<not> stdin_broken (child [?line] True)
             \<and> stdout (child [?line] True) = ?line # []
             \<and> classify sample_loads ?line = Message (JDict ?kvs)"
    by (simp add: started_def child_def init_def)
  have h2: "transport (init (py ''http'')) = py ''http''
             \<and> Response 200 (Some (JDict kvs)) = Response 200 (Some (JDict kvs))
             \<and> 200 \<le> (200::nat) \<and> (200::nat) \<le> 299
           \<or> transport (init (py ''http'')) = py ''stdio''
             \<and> process (init (py ''http'')) = Some (child [] True)
             \<and> \<not> stdin_broken (child [] True)
             \<and> stdout (child [] True) = [] # []
             \<and> classify sample_loads [] = Message (JDict kvs)" for kvs
    by (simp add: init_def)
  show ?thesis
    using error_code_mapping [OF h, where e = "[(py ''code'', JInt (- 32000)), (py ''message'', JStr (py ''login''))]"
        and m = "py ''tools/list''" and ps = "JDict []"]
      error_code_mapping [OF h2 [of ?tool], where e = "[(py ''code'', JInt (- 32601))]"
        and m = "py ''tools/list''" and ps = "JDict []"]
      error_code_mapping [OF h2 [of ?ok], where e = "[]"
        and m = "py ''tools/list''" and ps = "JDict []"]
    by (simp add: started_def init_def)
qed

subsection \<open>The id of the handshake\<close>

text \<open>
  Claim C3 says that every request on the wire, the \<^verbatim>\<open>initialize\<close> request included,
  takes its id from the one counter, so that no id is used twice.  \<^verbatim>\<open>_initialize\<close>
  writes the literal id 1 and leaves the counter at 0; the first call then takes 1 from
  the counter.  A fresh client that connects and lists the tools has written the ids 1
  and 1.
\<close>

theorem handshake_id_reused:
  \<open>fst (connect (Inr (child [''{}\<newline>'', ''{}\<newline>''] False)) sample_loads (init (py ''stdio''))) = Return ()
   \<and> fst (list_tools sample_loads RequestError
         (snd (connect (Inr (child [''{}\<newline>'', ''{}\<newline>''] False)) sample_loads (init (py ''stdio'')))))
       = Return (JList [])
   \<and> written (snd (list_tools sample_loads RequestError
         (snd (connect (Inr (child [''{}\<newline>'', ''{}\<newline>''] False)) sample_loads (init (py ''stdio''))))))
       = [init_request, initialized, request 1 (py ''tools/list'') (JDict [])]
   \<and> ids (written (snd (list_tools sample_loads RequestError
         (snd (connect (Inr (child [''{}\<newline>'', ''{}\<newline>''] False)) sample_loads (init (py ''stdio'')))))))
       = [1, 1]\<close>
  by (simp add: connect_def initialize_def read_next_json_message_def stdin_write_def
      list_tools_def send_request_def started_simps respond_def written_def request_def
      init_request_def initialized_def)

lemma connect_keeps_counter: "request_id (snd (connect spawn loads c)) = request_id c"
  by (auto simp: connect_def initialize_def read_next_json_message_def stdin_write_def Let_def
      split: option.split sum.split prod.split outcome.split bool.split)

lemma send_request_stdio_counter:
  "process c = Some p \<Longrightarrow> \<not> stdin_broken p \<Longrightarrow>
   request_id (snd (send_request_stdio loads method params c)) = request_id c + 1
   \<and> written (snd (send_request_stdio loads method params c))
       = stdin p @ [request (request_id c + 1) method params]"
  by (simp add: send_request_stdio_started written_def split: prod.split)

subsection \<open>HTTP failures\<close>

text \<open>
  Claim C4 says that a status outside 2xx is reported as a connection error.
  \<^verbatim>\<open>raise_for_status\<close> raises \<^verbatim>\<open>httpx.HTTPStatusError\<close>, which is no
  \<^verbatim>\<open>httpx.RequestError\<close>; the only handler of the block catches the latter, so a
  response with status 500 leaves the call as \<^verbatim>\<open>HTTPStatusError\<close>.
\<close>

theorem http_status_error_not_wrapped:
  "fst (send_request_http (Response 500 body) method params c) = Raise (HTTPStatusError 500)"
  by (simp add: send_request_http_def get_next_id_def Let_def)

lemma request_error_wrapped:
  "fst (send_request_http RequestError method params c)
     = Raise (LinkedInMCPConnectionError HTTPRequestFailed)"
  by (simp add: send_request_http_def get_next_id_def Let_def)

lemma success_is_inspected:
  "200 \<le> status \<Longrightarrow> status \<le> 299 \<Longrightarrow>
   fst (send_request_http (Response status (Some result)) method params c) = respond result"
  by (simp add: send_request_http_def get_next_id_def Let_def)

subsection \<open>Lines that are not JSON\<close>

text \<open>
  Claim C6 says that a line that does not parse as JSON is passed over without an
  exception.  \<^verbatim>\<open>line.decode()\<close> stands outside the \<^verbatim>\<open>try\<close>: a line that is not UTF-8,
  followed by a valid response, makes the call raise \<^verbatim>\<open>UnicodeDecodeError\<close>.
\<close>

theorem undecodable_line_raises:
  \<open>fst (send_request_stdio sample_loads (py ''tools/list'') (JDict [])
         (started [[CHR 0xFF, CHR 0x0A], ''{"id": 1, "result": "first"}\<newline>''] False))
     = Raise UnicodeDecodeError\<close>
  by (simp add: started_simps)

text \<open>The scenario of the claim, with a diagnostic line of text, does hold.\<close>

lemma noise_then_response:
  \<open>fst (send_request_stdio sample_loads (py ''tools/list'') (JDict [])
         (started [''debug: starting up\<newline>'', ''{"id": 1, "result": "first"}\<newline>''] False))
     = Return (JStr (py ''first''))\<close>
  by (simp add: started_simps respond_def)

subsection \<open>Connection errors of the subprocess transport\<close>

text \<open>
  Claim C7 says that a call raises a connection error, and nothing else, when the output
  stream closes before a JSON line has arrived.  When the stream holds one line that is
  not UTF-8 and then ends, the call raises \<^verbatim>\<open>UnicodeDecodeError\<close> (the defect of C6).
\<close>

theorem undecodable_stream_end_raises:
  \<open>fst (send_request_stdio sample_loads (py ''tools/list'') (JDict [])
         (started [[CHR 0xFF, CHR 0x0A]] True))
     = Raise UnicodeDecodeError\<close>
  by (simp add: started_simps)

subsection \<open>Concurrent calls\<close>

lemma task_step_line:
  "process c = Some p \<Longrightarrow> stdout p = line # rest \<Longrightarrow>
   task_step loads Awaiting c =
     (case classify loads line of
        Eof \<Rightarrow> Some (Done (Raise (LinkedInMCPConnectionError ServerClosedConnection)),
                    c\<lparr>process := Some (p\<lparr>stdout := rest\<rparr>)\<rparr>)
      | Undecodable \<Rightarrow> Some (Done (Raise UnicodeDecodeError), c\<lparr>process := Some (p\<lparr>stdout := rest\<rparr>)\<rparr>)
      | Noise \<Rightarrow> Some (Awaiting, c\<lparr>process := Some (p\<lparr>stdout := rest\<rparr>)\<rparr>)
      | Message m \<Rightarrow> Some (Done (respond m), c\<lparr>process := Some (p\<lparr>stdout := rest\<rparr>)\<rparr>))"
  by (simp add: task_step_def classify_def Let_def split: option.split)

lemma task_step_Pending:
  "process c = Some p \<Longrightarrow> \<not> stdin_broken p \<Longrightarrow>
   task_step loads (Pending method params) c =
     Some (Awaiting, c\<lparr>request_id := request_id c + 1,
             process := Some (p\<lparr>stdin := stdin p @ [request (request_id c + 1) method params]\<rparr>)\<rparr>)"
  by (simp add: task_step_def get_next_id_def stdin_write_def)

text \<open>
  A single task, resumed often enough, is the call: the steps of the task model compose
  to \<^verbatim>\<open>_send_request_stdio\<close> as defined above.  And whatever the two calls are, once
  both have been started two requests are in flight.
\<close>

lemma any_two_calls_in_flight:
  assumes "process c = Some p" and "\<not> stdin_broken p"
  shows "in_flight (fst (run loads [0, 1] ([Pending m1 ps1, Pending m2 ps2], c))) = 2"
  using assms by (simp add: task_step_Pending in_flight_def)

lemma run_Done [simp]: "run loads sched ([Done r], c) = ([Done r], c)"
  by (induction sched) (simp_all add: task_step_def)

lemma run_Awaiting:
  "process c = Some p \<Longrightarrow> read_lines loads (stdout_closed p) (stdout p) = (r, rest) \<Longrightarrow>
   r \<noteq> Hang \<Longrightarrow> length (stdout p) < k \<Longrightarrow>
   run loads (replicate k 0) ([Awaiting], c)
     = ([Done (case r of Return response \<Rightarrow> respond response | Raise e \<Rightarrow> Raise e | Hang \<Rightarrow> Hang)],
        c\<lparr>process := Some (p\<lparr>stdout := rest\<rparr>)\<rparr>)"
proof (induction "stdout p" arbitrary: c p k)
  case Nil
  then obtain k' where k: "k = Suc k'" by (cases k) auto
  from Nil show ?case
    by (auto simp: k task_step_def split: if_splits)
next
  case (Cons line ls)
  then obtain k' where k: "k = Suc k'" by (cases k) auto
  have out: "stdout p = line # ls" using Cons.hyps(2) by simp
  let ?c = "c\<lparr>process := Some (p\<lparr>stdout := ls\<rparr>)\<rparr>"
  show ?case
  proof (cases "classify loads line")
    case Noise
    have step: "task_step loads Awaiting c = Some (Awaiting, ?c)"
      using Cons.prems(1) out Noise by (simp add: task_step_line)
    have rl: "read_lines loads (stdout_closed (p\<lparr>stdout := ls\<rparr>)) (stdout (p\<lparr>stdout := ls\<rparr>)) = (r, rest)"
      using Cons.prems(2) out Noise by (simp add: read_lines_Cons)
    have "run loads (replicate k' 0) ([Awaiting], ?c)
        = ([Done (case r of Return response \<Rightarrow> respond response | Raise e \<Rightarrow> Raise e | Hang \<Rightarrow> Hang)],
           ?c\<lparr>process := Some ((p\<lparr>stdout := ls\<rparr>)\<lparr>stdout := rest\<rparr>)\<rparr>)"
      using Cons.prems(3,4) out k
      by (intro Cons.hyps(1) [OF _ _ rl]) simp_all
    then show ?thesis using step by (simp add: k)
  next
    case Eof
    then show ?thesis
      using Cons.prems(1,2) out by (auto simp: k task_step_line read_lines_Cons)
  next
    case Undecodable
    then show ?thesis
      using Cons.prems(1,2) out by (auto simp: k task_step_line read_lines_Cons)
  next
    case (Message m)
    then show ?thesis
      using Cons.prems(1,2) out by (auto simp: k task_step_line read_lines_Cons)
  qed
qed

lemma single_task_is_the_call:
  assumes "process c = Some p" and "\<not> stdin_broken p"
    and "fst (send_request_stdio loads m0 ps c) \<noteq> Hang"
  shows "run loads (replicate (length (stdout p) + 2) 0) ([Pending m0 ps], c)
           = ([Done (fst (send_request_stdio loads m0 ps c))], snd (send_request_stdio loads m0 ps c))"
proof -
  obtain r rest where rl: "read_lines loads (stdout_closed p) (stdout p) = (r, rest)"
    by (cases "read_lines loads (stdout_closed p) (stdout p)")
  have r: "r \<noteq> Hang"
    using assms(3) rl by (auto simp: send_request_stdio_started [OF assms(1,2)])
  let ?p = "p\<lparr>stdin := stdin p @ [request (request_id c + 1) m0 ps]\<rparr>"
  let ?c = "c\<lparr>request_id := request_id c + 1, process := Some ?p\<rparr>"
  have "run loads (replicate (Suc (length (stdout ?p))) 0) ([Awaiting], ?c)
      = ([Done (case r of Return response \<Rightarrow> respond response | Raise e \<Rightarrow> Raise e | Hang \<Rightarrow> Hang)],
         ?c\<lparr>process := Some (?p\<lparr>stdout := rest\<rparr>)\<rparr>)"
    using rl r by (intro run_Awaiting) simp_all
  then show ?thesis
    using rl by (simp add: task_step_Pending [OF assms(1,2)] send_request_stdio_started [OF assms(1,2)])
qed

text \<open>
  Claim C9 says that at most one request is in flight on one instance.  With two calls
  handed to the event loop together, the first writes its request and is suspended in
  \<^verbatim>\<open>readline\<close>, then the second writes its own: two requests are in flight, and when the
  responses arrive the first call takes the response to the second.
\<close>

theorem two_requests_in_flight:
  \<open>run sample_loads [0, 1]
       ([Pending (py ''tools/call'') (JDict []), Pending (py ''tools/list'') (JDict [])],
        started [''{"id": 2, "result": "second"}\<newline>'', ''{"id": 1, "result": "first"}\<newline>''] False)
     = ([Awaiting, Awaiting],
        (started [''{"id": 2, "result": "second"}\<newline>'', ''{"id": 1, "result": "first"}\<newline>''] False)
          \<lparr>request_id := 2,
           process := Some ((child [''{"id": 2, "result": "second"}\<newline>'', ''{"id": 1, "result": "first"}\<newline>''] False)
              \<lparr>stdin := [request 1 (py ''tools/call'') (JDict []), request 2 (py ''tools/list'') (JDict [])]\<rparr>)\<rparr>)
   \<and> in_flight (fst (run sample_loads [0, 1]
       ([Pending (py ''tools/call'') (JDict []), Pending (py ''tools/list'') (JDict [])],
        started [''{"id": 2, "result": "second"}\<newline>'', ''{"id": 1, "result": "first"}\<newline>''] False))) = 2
   \<and> fst (run sample_loads [0, 1, 0, 1]
       ([Pending (py ''tools/call'') (JDict []), Pending (py ''tools/list'') (JDict [])],
        started [''{"id": 2, "result": "second"}\<newline>'', ''{"id": 1, "result": "first"}\<newline>''] False))
     = [Done (Return (JStr (py ''second''))), Done (Return (JStr (py ''first'')))]\<close>
  by (simp add: started_def child_def init_def task_step_Pending task_step_line in_flight_def respond_def)

subsection \<open>Optional arguments\<close>

lemma send_request_http_posted:
  "posted (snd (send_request_http rep m0 ps c))
     = posted c @ [request (request_id c + 1) m0 ps]"
  by (simp add: send_request_http_def get_next_id_def Let_def split: reply.split option.split)

lemma send_request_stdio_written:
  "process c = Some p \<Longrightarrow> \<not> stdin_broken p \<Longrightarrow>
   written (snd (send_request_stdio loads m0 ps c)) = stdin p @ [request (request_id c + 1) m0 ps]"
  by (simp add: send_request_stdio_started written_def split: prod.split)

text \<open>
  Claim C10.  On either transport, the request that \<^verbatim>\<open>search_jobs\<close> sends carries
  under \<^verbatim>\<open>arguments\<close> exactly the optional arguments that are truthy, each under its
  own key and in the order keywords, location, limit, time_posted: an empty string and
  a limit of 0 are left out like \<^verbatim>\<open>None\<close>.  The request that \<^verbatim>\<open>get_company_posts\<close> sends
  carries the url and, unless it is \<^verbatim>\<open>None\<close>, the limit: a limit of 0 is sent.  Read as
  dictionaries, the arguments hold a key if and only if its argument passes the test of
  its method, and no other key.
\<close>

theorem optional_arguments_sent:
  "(transport c = py ''http'' \<longrightarrow>
      posted (snd (search_jobs loads rep keywords location limit time_posted c))
        = posted c @ [request (request_id c + 1) (py ''tools/call'')
            (JDict [(py ''name'', JStr (py ''search_jobs'')),
                    (py ''arguments'',
                       JDict ((if truthy keywords then [(py ''keywords'', keywords)] else [])
                              @ (if truthy location then [(py ''location'', location)] else [])
                              @ (if truthy limit then [(py ''limit'', limit)] else [])
                              @ (if truthy time_posted then [(py ''time_posted'', time_posted)]
                                 else [])))])]
      \<and> posted (snd (get_company_posts loads rep url limit c))
        = posted c @ [request (request_id c + 1) (py ''tools/call'')
            (JDict [(py ''name'', JStr (py ''get_company_posts'')),
                    (py ''arguments'',
                       JDict ((py ''url'', url)
                              # (if limit = JNone then [] else [(py ''limit'', limit)])))])])
   \<and> (transport c = py ''stdio'' \<and> process c = Some p \<and> \<not> stdin_broken p \<longrightarrow>
      written (snd (search_jobs loads rep keywords location limit time_posted c))
        = stdin p @ [request (request_id c + 1) (py ''tools/call'')
            (JDict [(py ''name'', JStr (py ''search_jobs'')),
                    (py ''arguments'',
                       JDict ((if truthy keywords then [(py ''keywords'', keywords)] else [])
                              @ (if truthy location then [(py ''location'', location)] else [])
                              @ (if truthy limit then [(py ''limit'', limit)] else [])
                              @ (if truthy time_posted then [(py ''time_posted'', time_posted)]
                                 else [])))])]
      \<and> written (snd (get_company_posts loads rep url limit c))
        = stdin p @ [request (request_id c + 1) (py ''tools/call'')
            (JDict [(py ''name'', JStr (py ''get_company_posts'')),
                    (py ''arguments'',
                       JDict ((py ''url'', url)
                              # (if limit = JNone then [] else [(py ''limit'', limit)])))])])
   \<and> truthy (JInt 0) = False \<and> truthy (JStr []) = False \<and> truthy JNone = False
   \<and> map_of (search_jobs_args keywords location limit time_posted) k
       = (if k = py ''keywords'' \<and> truthy keywords then Some keywords
          else if k = py ''location'' \<and> truthy location then Some location
          else if k = py ''limit'' \<and> truthy limit then Some limit
          else if k = py ''time_posted'' \<and> truthy time_posted then Some time_posted
          else None)
   \<and> map_of (get_company_posts_args url limit) k
       = (if k = py ''url'' then Some url
          else if k = py ''limit'' \<and> limit \<noteq> JNone then Some limit
          else None)"
proof -
  have http: "transport c = py ''http'' \<longrightarrow>
      posted (snd (search_jobs loads rep keywords location limit time_posted c))
        = posted c @ [request (request_id c + 1) (py ''tools/call'')
            (JDict [(py ''name'', JStr (py ''search_jobs'')),
                    (py ''arguments'',
                       JDict ((if truthy keywords then [(py ''keywords'', keywords)] else [])
                              @ (if truthy location then [(py ''location'', location)] else [])
                              @ (if truthy limit then [(py ''limit'', limit)] else [])
                              @ (if truthy time_posted then [(py ''time_posted'', time_posted)]
                                 else [])))])]
      \<and> posted (snd (get_company_posts loads rep url limit c))
        = posted c @ [request (request_id c + 1) (py ''tools/call'')
            (JDict [(py ''name'', JStr (py ''get_company_posts'')),
                    (py ''arguments'',
                       JDict ((py ''url'', url)
                              # (if limit = JNone then [] else [(py ''limit'', limit)])))])]"
    by (simp add: search_jobs_def get_company_posts_def call_tool_def send_request_def
        send_request_http_posted search_jobs_args_def get_company_posts_args_def)
  have stdio: "transport c = py ''stdio'' \<and> process c = Some p \<and> \<not> stdin_broken p \<longrightarrow>
      written (snd (search_jobs loads rep keywords location limit time_posted c))
        = stdin p @ [request (request_id c + 1) (py ''tools/call'')
            (JDict [(py ''name'', JStr (py ''search_jobs'')),
                    (py ''arguments'',
                       JDict ((if truthy keywords then [(py ''keywords'', keywords)] else [])
                              @ (if truthy location then [(py ''location'', location)] else [])
                              @ (if truthy limit then [(py ''limit'', limit)] else [])
                              @ (if truthy time_posted then [(py ''time_posted'', time_posted)]
                                 else [])))])]
      \<and> written (snd (get_company_posts loads rep url limit c))
        = stdin p @ [request (request_id c + 1) (py ''tools/call'')
            (JDict [(py ''name'', JStr (py ''get_company_posts'')),
                    (py ''arguments'',
                       JDict ((py ''url'', url)
                              # (if limit = JNone then [] else [(py ''limit'', limit)])))])]"
    by (simp add: search_jobs_def get_company_posts_def call_tool_def send_request_def
        send_request_stdio_written search_jobs_args_def get_company_posts_args_def)
  have falsy: "truthy (JInt 0) = False \<and> truthy (JStr []) = False \<and> truthy JNone = False"
    by simp
  have sj: "map_of (search_jobs_args keywords location limit time_posted) k
       = (if k = py ''keywords'' \<and> truthy keywords then Some keywords
          else if k = py ''location'' \<and> truthy location then Some location
          else if k = py ''limit'' \<and> truthy limit then Some limit
          else if k = py ''time_posted'' \<and> truthy time_posted then Some time_posted
          else None)"
    by (auto simp: search_jobs_args_def)
  have cp: "map_of (get_company_posts_args url limit) k
       = (if k = py ''url'' then Some url
          else if k = py ''limit'' \<and> limit \<noteq> JNone then Some limit
          else None)"
    by (auto simp: get_company_posts_args_def)
  from http stdio falsy sj cp show ?thesis by blast
qed

theorem optional_arguments_sent_witness:
  "transport (init (py ''http'')) = py ''http''
   \<and> posted (snd (search_jobs sample_loads RequestError (JStr []) (JStr []) (JInt 0) JNone
        (init (py ''http''))))
      = [JDict [(py ''jsonrpc'', JStr (py ''2.0'')), (py ''id'', JInt 1),
                (py ''method'', JStr (py ''tools/call'')),
                (py ''params'', JDict [(py ''name'', JStr (py ''search_jobs'')),
                                       (py ''arguments'', JDict [])])]]
   \<and> posted (snd (get_company_posts sample_loads RequestError (JStr (py ''u'')) (JInt 0)
        (init (py ''http''))))
      = [JDict [(py ''jsonrpc'', JStr (py ''2.0'')), (py ''id'', JInt 1),
                (py ''method'', JStr (py ''tools/call'')),
                (py ''params'', JDict [(py ''name'', JStr (py ''get_company_posts'')),
                                       (py ''arguments'',
                                          JDict [(py ''url'', JStr (py ''u'')),
                                                 (py ''limit'', JInt 0)])])]]
   \<and> posted (snd (get_company_posts sample_loads RequestError (JStr (py ''u'')) JNone
        (init (py ''http''))))
      = [JDict [(py ''jsonrpc'', JStr (py ''2.0'')), (py ''id'', JInt 1),
                (py ''method'', JStr (py ''tools/call'')),
                (py ''params'', JDict [(py ''name'', JStr (py ''get_company_posts'')),
                                       (py ''arguments'',
                                          JDict [(py ''url'', JStr (py ''u''))])])]]
   \<and> transport (started [] True) = py ''stdio'' \<and> process (started [] True) = Some (child [] True)
   \<and> \<not> stdin_broken (child [] True)
   \<and> written (snd (search_jobs sample_loads RequestError (JStr (py ''ml'')) (JStr []) (JInt 0)
        (JStr (py ''24h'')) (started [] True)))
      = [JDict [(py ''jsonrpc'', JStr (py ''2.0'')), (py ''id'', JInt 1),
                (py ''method'', JStr (py ''tools/call'')),
                (py ''params'', JDict [(py ''name'', JStr (py ''search_jobs'')),
                                       (py ''arguments'',
                                          JDict [(py ''keywords'', JStr (py ''ml'')),
                                                 (py ''time_posted'', JStr (py ''24h''))])])]]
   \<and> written (snd (get_company_posts sample_loads RequestError (JStr (py ''u'')) (JInt 0)
        (started [] True)))
      = [JDict [(py ''jsonrpc'', JStr (py ''2.0'')), (py ''id'', JInt 1),
                (py ''method'', JStr (py ''tools/call'')),
                (py ''params'', JDict [(py ''name'', JStr (py ''get_company_posts'')),
                                       (py ''arguments'',
                                          JDict [(py ''url'', JStr (py ''u'')),
                                                 (py ''limit'', JInt 0)])])]]"
  using optional_arguments_sent [of "init (py ''http'')" sample_loads RequestError
      "JStr []" "JStr []" "JInt 0" JNone "JStr (py ''u'')"]
    optional_arguments_sent [of "init (py ''http'')" sample_loads RequestError
      "JStr []" "JStr []" JNone JNone "JStr (py ''u'')"]
    optional_arguments_sent [of "started [] True" sample_loads RequestError
      "JStr (py ''ml'')" "JStr []" "JInt 0" "JStr (py ''24h'')" "JStr (py ''u'')"
      "child [] True"]
  by (simp add: init_def started_def child_def request_def)

section \<open>Properties of the browser module\<close>

lemma ensure_authenticated_logged_in:
  "fst (ensure_authenticated E g) = Inr () \<Longrightarrow>
   \<exists>b. browser (snd (ensure_authenticated E g)) = Some b \<and> is_logged_in E b"
  by (auto simp: ensure_authenticated_def validate_session_def get_or_create_browser_def
      from_cookie_def apply_browser_settings_def log_def Let_def
      split: option.splits if_splits prod.splits sum.splits)

lemma session_failure_falls_back:
  assumes "browser g = None" and "start_ok E" and "file_exists E DEFAULT_SESSION_PATH"
    and "\<not> load_session_ok E DEFAULT_SESSION_PATH"
    and "linkedin_cookie E = Some ck" and "ck \<noteq> []" and "login_ok E ck"
  shows "fst (get_or_create_browser E None None g)
           = Inr \<lparr>running = True, session = None, cookie = Some ck, visited = [],
                  blocking = True\<rparr>"
  using assms
  by (simp add: get_or_create_browser_def from_cookie_def apply_browser_settings_def log_def
      Let_def)

text \<open>
  Claim C5 says that with no session file and a valid cookie \<^verbatim>\<open>ensure_authenticated\<close>
  succeeds by the cookie.  \<^verbatim>\<open>get_or_create_browser\<close> stores the new manager in
  \<^verbatim>\<open>_browser\<close> before it tries any credential and leaves it there when it raises; the
  next call returns it before any credential is looked at.  After one call that found
  neither source, a call made with no session file and a cookie that would log in (it
  does from a freshly loaded module) raises \<^verbatim>\<open>AuthenticationError\<close>, and the only call
  it makes is \<^verbatim>\<open>is_logged_in\<close>: the cookie is never read.
\<close>

theorem cookie_ignored_after_failure_counterexample:
  "ensure_authenticated (sample_env False None) module_loaded
     = (Inl (AuthenticationError
          (py ''No authentication found. Run with --get-session to create a session.'')),
        \<lparr>browser = Some \<lparr>running = True, session = None, cookie = None, visited = [],
                          blocking = False\<rparr>,
         headless = True,
         trace = [Start, Exists DEFAULT_SESSION_PATH, GetLinkedinCookie]\<rparr>)
   \<and> file_exists (sample_env False (Some (py ''li_at=abc''))) DEFAULT_SESSION_PATH = False
   \<and> linkedin_cookie (sample_env False (Some (py ''li_at=abc''))) = Some (py ''li_at=abc'')
   \<and> login_ok (sample_env False (Some (py ''li_at=abc''))) (py ''li_at=abc'')
   \<and> fst (ensure_authenticated (sample_env False (Some (py ''li_at=abc''))) module_loaded) = Inr ()
   \<and> ensure_authenticated (sample_env False (Some (py ''li_at=abc'')))
        (snd (ensure_authenticated (sample_env False None) module_loaded))
     = (Inl (AuthenticationError (py ''Session expired or invalid.'')),
        \<lparr>browser = Some \<lparr>running = True, session = None, cookie = None, visited = [],
                          blocking = False\<rparr>,
         headless = True,
         trace = [Start, Exists DEFAULT_SESSION_PATH, GetLinkedinCookie, IsLoggedIn]\<rparr>)"
  by (simp add: ensure_authenticated_def validate_session_def get_or_create_browser_def
      from_cookie_def apply_browser_settings_def log_def Let_def sample_env_def
      module_loaded_def)

text \<open>
  Claim C5 as amended.  On first use, when \<^verbatim>\<open>_browser\<close> holds no manager yet, and with
  a browser that starts, \<^verbatim>\<open>ensure_authenticated\<close> resolves the credentials in this
  order.  With no session file and a cookie that logs in, it succeeds by the cookie: the
  calls made are the start, the test for the file, the reading of the cookie, and the
  login with it.  With a session file that loads and validates, it succeeds by the
  session and the cookie is never read.  With no session file and no cookie, it raises
  \<^verbatim>\<open>AuthenticationError\<close> after the start, the test for the file and the reading of the
  cookie, with no call that loads a page.  And it never returns normally unless the
  page of the browser it leaves in \<^verbatim>\<open>_browser\<close> is logged in.
\<close>

theorem credential_priority:
  assumes "browser g = None" and "start_ok E"
  shows
    "(\<not> file_exists E DEFAULT_SESSION_PATH \<and> linkedin_cookie E = Some ck \<and> ck \<noteq> []
        \<and> login_ok E ck
        \<and> is_logged_in E \<lparr>running = True, session = None, cookie = Some ck, visited = [],
                            blocking = True\<rparr>
      \<longrightarrow> ensure_authenticated E g
           = (Inr (),
              g\<lparr>browser := Some \<lparr>running = True, session = None, cookie = Some ck,
                                  visited = [], blocking = True\<rparr>,
                trace := trace g @ [Start, Exists DEFAULT_SESSION_PATH, GetLinkedinCookie, Route,
                                    SetDefaultTimeout 120000, LoginWithCookie ck,
                                    SetDefaultTimeout (default_timeout E), IsLoggedIn]\<rparr>))
   \<and> (file_exists E DEFAULT_SESSION_PATH \<and> load_session_ok E DEFAULT_SESSION_PATH \<and> goto_ok E
        \<and> is_logged_in E \<lparr>running = True, session = Some DEFAULT_SESSION_PATH, cookie = None,
                            visited = [feed], blocking = True\<rparr>
      \<longrightarrow> ensure_authenticated E g
           = (Inr (),
              g\<lparr>browser := Some \<lparr>running = True, session = Some DEFAULT_SESSION_PATH,
                                  cookie = None, visited = [feed], blocking = True\<rparr>,
                trace := trace g @ [Start, Exists DEFAULT_SESSION_PATH,
                                    LoadSession DEFAULT_SESSION_PATH, Route,
                                    SetDefaultTimeout 120000, Goto feed, IsLoggedIn,
                                    SetDefaultTimeout (default_timeout E), IsLoggedIn]\<rparr>))
   \<and> (\<not> file_exists E DEFAULT_SESSION_PATH
        \<and> (linkedin_cookie E = None \<or> linkedin_cookie E = Some [])
      \<longrightarrow> ensure_authenticated E g
           = (Inl (AuthenticationError
                (py ''No authentication found. Run with --get-session to create a session.'')),
              g\<lparr>browser := Some \<lparr>running = True, session = None, cookie = None, visited = [],
                                  blocking = False\<rparr>,
                trace := trace g @ [Start, Exists DEFAULT_SESSION_PATH, GetLinkedinCookie]\<rparr>)
          \<and> filter navigation (trace (snd (ensure_authenticated E g))) = filter navigation (trace g))
   \<and> (fst (ensure_authenticated E g) = Inr () \<longrightarrow>
        (\<exists>b. browser (snd (ensure_authenticated E g)) = Some b \<and> is_logged_in E b))"
proof -
  have cookie_path:
    "\<not> file_exists E DEFAULT_SESSION_PATH \<and> linkedin_cookie E = Some ck \<and> ck \<noteq> []
        \<and> login_ok E ck
        \<and> is_logged_in E \<lparr>running = True, session = None, cookie = Some ck, visited = [],
                            blocking = True\<rparr>
      \<longrightarrow> ensure_authenticated E g
           = (Inr (),
              g\<lparr>browser := Some \<lparr>running = True, session = None, cookie = Some ck,
                                  visited = [], blocking = True\<rparr>,
                trace := trace g @ [Start, Exists DEFAULT_SESSION_PATH, GetLinkedinCookie, Route,
                                    SetDefaultTimeout 120000, LoginWithCookie ck,
                                    SetDefaultTimeout (default_timeout E), IsLoggedIn]\<rparr>)"
    using assms
    by (simp add: ensure_authenticated_def validate_session_def get_or_create_browser_def
        from_cookie_def apply_browser_settings_def log_def Let_def)
  have session_path:
    "file_exists E DEFAULT_SESSION_PATH \<and> load_session_ok E DEFAULT_SESSION_PATH \<and> goto_ok E
        \<and> is_logged_in E \<lparr>running = True, session = Some DEFAULT_SESSION_PATH, cookie = None,
                            visited = [feed], blocking = True\<rparr>
      \<longrightarrow> ensure_authenticated E g
           = (Inr (),
              g\<lparr>browser := Some \<lparr>running = True, session = Some DEFAULT_SESSION_PATH,
                                  cookie = None, visited = [feed], blocking = True\<rparr>,
                trace := trace g @ [Start, Exists DEFAULT_SESSION_PATH,
                                    LoadSession DEFAULT_SESSION_PATH, Route,
                                    SetDefaultTimeout 120000, Goto feed, IsLoggedIn,
                                    SetDefaultTimeout (default_timeout E), IsLoggedIn]\<rparr>)"
    using assms
    by (simp add: ensure_authenticated_def validate_session_def get_or_create_browser_def
        from_cookie_def apply_browser_settings_def log_def Let_def)
  have neither:
    "\<not> file_exists E DEFAULT_SESSION_PATH
        \<and> (linkedin_cookie E = None \<or> linkedin_cookie E = Some [])
      \<longrightarrow> ensure_authenticated E g
           = (Inl (AuthenticationError
                (py ''No authentication found. Run with --get-session to create a session.'')),
              g\<lparr>browser := Some \<lparr>running = True, session = None, cookie = None, visited = [],
                                  blocking = False\<rparr>,
                trace := trace g @ [Start, Exists DEFAULT_SESSION_PATH, GetLinkedinCookie]\<rparr>)
          \<and> filter navigation (trace (snd (ensure_authenticated E g))) = filter navigation (trace g)"
    using assms
    by (auto simp: ensure_authenticated_def validate_session_def get_or_create_browser_def
        from_cookie_def apply_browser_settings_def log_def Let_def navigation_def)
  from cookie_path session_path neither ensure_authenticated_logged_in [of E g]
  show ?thesis by blast
qed

theorem credential_priority_witness:
  "browser module_loaded = None
   \<and> start_ok (sample_env False (Some (py ''li_at=abc'')))
   \<and> \<not> file_exists (sample_env False (Some (py ''li_at=abc''))) DEFAULT_SESSION_PATH
   \<and> linkedin_cookie (sample_env False (Some (py ''li_at=abc''))) = Some (py ''li_at=abc'')
   \<and> fst (ensure_authenticated (sample_env False (Some (py ''li_at=abc''))) module_loaded) = Inr ()
   \<and> trace (snd (ensure_authenticated (sample_env False (Some (py ''li_at=abc''))) module_loaded))
       = [Start, Exists DEFAULT_SESSION_PATH, GetLinkedinCookie, Route, SetDefaultTimeout 120000,
          LoginWithCookie (py ''li_at=abc''), SetDefaultTimeout 5000, IsLoggedIn]
   \<and> file_exists (sample_env True (Some (py ''li_at=abc''))) DEFAULT_SESSION_PATH
   \<and> fst (ensure_authenticated (sample_env True (Some (py ''li_at=abc''))) module_loaded) = Inr ()
   \<and> trace (snd (ensure_authenticated (sample_env True (Some (py ''li_at=abc''))) module_loaded))
       = [Start, Exists DEFAULT_SESSION_PATH, LoadSession DEFAULT_SESSION_PATH, Route,
          SetDefaultTimeout 120000, Goto feed, IsLoggedIn, SetDefaultTimeout 5000, IsLoggedIn]
   \<and> \<not> file_exists (sample_env False None) DEFAULT_SESSION_PATH
   \<and> linkedin_cookie (sample_env False None) = None
   \<and> fst (ensure_authenticated (sample_env False None) module_loaded)
       = Inl (AuthenticationError
           (py ''No authentication found. Run with --get-session to create a session.''))
   \<and> trace (snd (ensure_authenticated (sample_env False None) module_loaded))
       = [Start, Exists DEFAULT_SESSION_PATH, GetLinkedinCookie]"
proof -
  have g: "browser module_loaded = None" by (simp add: module_loaded_def)
  have s: "start_ok (sample_env h k)" for h k by (simp add: sample_env_def)
  show ?thesis
    using credential_priority [OF g s, of False "Some (py ''li_at=abc'')" "py ''li_at=abc''"]
      credential_priority [OF g s, of True "Some (py ''li_at=abc'')" "py ''li_at=abc''"]
      credential_priority [OF g s, of False None "py ''li_at=abc''"]
    by (simp add: sample_env_def module_loaded_def)
qed

end
